theory Spec2Isabelle
  imports Complex_Main "HOL-Library.Sublist"
begin

section \<open>Data model of the v1 API router\<close>

text \<open>
  The router (\<^verbatim>\<open>v1ApiRouter\<close>) exposes \<^verbatim>\<open>createChatCompletion\<close> and \<^verbatim>\<open>report\<close>.
  JSON values of unknown shape (\<^verbatim>\<open>z.unknown()\<close>, provider objects) are kept as their
  JSON text.
\<close>

type_synonym json = string

text \<open>The error codes of \<^verbatim>\<open>TRPCError\<close>.\<close>

datatype trpc_code =
    PARSE_ERROR | BAD_REQUEST | INTERNAL_SERVER_ERROR | NOT_IMPLEMENTED | UNAUTHORIZED
  | FORBIDDEN | NOT_FOUND | METHOD_NOT_SUPPORTED | TIMEOUT | CONFLICT | PRECONDITION_FAILED
  | PAYLOAD_TOO_LARGE | UNPROCESSABLE_CONTENT | TOO_MANY_REQUESTS | CLIENT_CLOSED_REQUEST

text \<open>
  What a handler can reject with: a \<^verbatim>\<open>TRPCError\<close> (code, message); the
  \<^verbatim>\<open>ExtendedTRPCError\<close> of the catch block (code, message, and the extra field
  \<^verbatim>\<open>error: {code: statusCode, message}\<close>); the \<^verbatim>\<open>ZodError\<close> of a failed
  \<^verbatim>\<open>.parse\<close>; any other exception, re-thrown as it is.
\<close>

datatype error =
    TRPCError trpc_code string
  | ExtendedTRPCError trpc_code string nat string
  | ZodError string
  | OtherError string

text \<open>What is thrown inside the \<^verbatim>\<open>try\<close> block of \<^verbatim>\<open>createChatCompletion\<close>.\<close>

datatype thrown = ThrownTRPC trpc_code string | ThrownOther string

text \<open>
  What \<^verbatim>\<open>getOpenaiCompletion\<close> can throw. The catch block asks
  \<^verbatim>\<open>error instanceof APIError\<close> and reads \<^verbatim>\<open>error.status\<close>, which the provider's
  client declares \<^verbatim>\<open>number | undefined\<close>: an \<^verbatim>\<open>APIError\<close> carries a status when the
  provider answered with one and none when it did not answer (the client's connection
  and timeout errors are \<^verbatim>\<open>APIError\<close>s too). Anything that is not an \<^verbatim>\<open>APIError\<close>
  is an \<open>UpstreamFailure\<close> with its message.
\<close>

datatype upstream_error = APIError "nat option" string | UpstreamFailure string

record api_key =
  key_projectId :: string
  key_readOnly :: bool

text \<open>The two request headers the router reads; \<open>None\<close> is an absent header.\<close>

record headers =
  op_log_request :: "string option"
  op_tags :: "string option"

record ctx =
  ctx_key :: api_key
  ctx_headers :: headers

text \<open>The row of \<^verbatim>\<open>prisma.fineTune\<close> (the Custom Model Record).\<close>

record fine_tune =
  ft_id :: string
  ft_slug :: string
  ft_projectId :: string

text \<open>
  The validated request payload (\<^verbatim>\<open>chatCompletionInputReqPayload\<close>): the model
  identifier and the remaining fields as JSON.
\<close>

record chat_input =
  ci_model :: string
  ci_rest :: json

text \<open>
  The input object of \<^verbatim>\<open>createChatCompletion\<close>: the deprecated \<^verbatim>\<open>reqPayload\<close>
  field when the key is present, the top-level fields, and \<^verbatim>\<open>stream\<close> (default false).
\<close>

record cc_input =
  in_reqPayload :: "json option"
  in_fields :: json
  in_stream :: bool

type_synonym tags = "(string \<times> string) list"

datatype tag_value = TagString string | TagNumber int | TagBoolean bool | TagNull

type_synonym raw_tags = "(string \<times> tag_value) list"

record calculated_usage =
  inputTokens :: nat
  outputTokens :: nat
  cost :: real

text \<open>
  A provider's answer: a single \<^verbatim>\<open>ChatCompletion\<close> or a \<^verbatim>\<open>Stream\<close> of
  \<^verbatim>\<open>ChatCompletionChunk\<close>s, here the chunks it will produce.
\<close>

datatype completion = ChatCompletion json | Stream "json list"

subsection \<open>Stream splitting\<close>

datatype side = LeftBranch | RightBranch

text \<open>
  Modelled from the spec: \<^verbatim>\<open>Stream.tee\<close> belongs to the provider's client library and is
  not among the sources. Sections 4.5 and 9 describe it as two independently buffered
  readers over one upstream source: a reader takes the next chunk from its own buffer,
  and when that is empty pulls the next chunk of the source, which is put into the
  other reader's buffer as well. \<open>seen_l\<close> and \<open>seen_r\<close> are what each consumer has
  observed so far.
\<close>

record 'a tee_state =
  source :: "'a list"
  buf_l :: "'a list"
  buf_r :: "'a list"
  seen_l :: "'a list"
  seen_r :: "'a list"

definition tee_init :: "'a list \<Rightarrow> 'a tee_state" where
  "tee_init cs = \<lparr>source = cs, buf_l = [], buf_r = [], seen_l = [], seen_r = []\<rparr>"

fun tee_next :: "side \<Rightarrow> 'a tee_state \<Rightarrow> 'a tee_state" where
  "tee_next LeftBranch st =
     (case buf_l st of
        x # q \<Rightarrow> st\<lparr>buf_l := q, seen_l := seen_l st @ [x]\<rparr>
      | [] \<Rightarrow> (case source st of
                 [] \<Rightarrow> st
               | x # src \<Rightarrow> st\<lparr>source := src, buf_r := buf_r st @ [x], seen_l := seen_l st @ [x]\<rparr>))"
| "tee_next RightBranch st =
     (case buf_r st of
        x # q \<Rightarrow> st\<lparr>buf_r := q, seen_r := seen_r st @ [x]\<rparr>
      | [] \<Rightarrow> (case source st of
                 [] \<Rightarrow> st
               | x # src \<Rightarrow> st\<lparr>source := src, buf_l := buf_l st @ [x], seen_r := seen_r st @ [x]\<rparr>))"

text \<open>A schedule is the order in which the two consumers ask for their next chunk.\<close>

fun tee_run :: "side list \<Rightarrow> 'a tee_state \<Rightarrow> 'a tee_state" where
  "tee_run [] st = st"
| "tee_run (s # sched) st = tee_run sched (tee_next s st)"

fun seen :: "side \<Rightarrow> 'a tee_state \<Rightarrow> 'a list" where
  "seen LeftBranch st = seen_l st"
| "seen RightBranch st = seen_r st"

fun pending :: "side \<Rightarrow> 'a tee_state \<Rightarrow> 'a list" where
  "pending LeftBranch st = buf_l st @ source st"
| "pending RightBranch st = buf_r st @ source st"

text \<open>A branch of a split stream: which side it is, and the stream that was split.\<close>

datatype 'a branch = Branch side "'a list"

definition tee :: "'a list \<Rightarrow> 'a branch \<times> 'a branch" where
  "tee cs = (Branch LeftBranch cs, Branch RightBranch cs)"

text \<open>Reading a branch to its end, the other consumer not having read anything.\<close>

fun drain :: "'a branch \<Rightarrow> 'a list" where
  "drain (Branch s cs) = seen s (tee_run (replicate (length cs) s) (tee_init cs))"

subsection \<open>Recorder calls and the log store\<close>

text \<open>What is stored as request or response payload of a Logged Call.\<close>

datatype payload =
    UnknownPayload json
  | InputPayload chat_input
  | ErrorPayload trpc_code string
  | CompletionPayload json

text \<open>The argument object of \<^verbatim>\<open>recordLoggedCall\<close>; absent fields are \<open>None\<close>.\<close>

record logged_call =
  lc_projectId :: string
  lc_usage :: "calculated_usage option"
  lc_requestedAt :: "int option"
  lc_receivedAt :: "int option"
  lc_reqPayload :: payload
  lc_respPayload :: "payload option"
  lc_statusCode :: "nat option"
  lc_errorMessage :: "string option"
  lc_tags :: tags

datatype recorded = Whole json | Streamed "json branch"

text \<open>The argument object of \<^verbatim>\<open>recordUsage\<close>.\<close>

record usage_call =
  ru_projectId :: string
  ru_requestedAt :: int
  ru_receivedAt :: int
  ru_inputPayload :: chat_input
  ru_completion :: recorded
  ru_logRequest :: bool
  ru_fineTune :: "fine_tune option"
  ru_tags :: tags

datatype recorder_call = RecordUsage usage_call | RecordLoggedCall logged_call

text \<open>
  A recorder call that is started and not awaited (\<^verbatim>\<open>void f(...)\<close>), with the
  rejection handler attached to its promise at the call site:
  \<^verbatim>\<open>.catch((e) => captureException(e))\<close> or none.
\<close>

datatype on_reject = CaptureException | NoHandler

record dispatch =
  d_call :: recorder_call
  d_onReject :: on_reject

datatype provider_call = GetCompletion2 fine_tune | GetOpenaiCompletion string

datatype response = Completion json | ReadableStream "json branch"

text \<open>
  The collaborators of the router that are not among the sources, taken as parameters:
  the schemas of \<^verbatim>\<open>types/shared.types\<close>, \<^verbatim>\<open>parseTags\<close>, the database lookup, the two
  providers, the status-code tables of \<^verbatim>\<open>server/utils/trpcStatusCodes\<close>,
  \<^verbatim>\<open>calculateUsage\<close>, the clock, the outcome of the storage write
  (\<open>createLoggedCall\<close>: the message of the failure, if it fails) and whether
  \<^verbatim>\<open>recordUsage\<close> goes on to write a Logged Call (\<open>usageLogged\<close>). A \<open>string +\<close>
  result is \<open>Inl\<close> the message of the exception thrown.
\<close>

record env =
  chatCompletionInputReqPayload :: "json \<Rightarrow> string + chat_input"
  jsonParseTags :: "string \<Rightarrow> string + tags"
  parseTags :: "raw_tags \<Rightarrow> string + tags"
  findUnique :: "string \<Rightarrow> string + fine_tune option"
  getCompletion2 :: "fine_tune \<Rightarrow> chat_input \<Rightarrow> string + completion"
  getOpenaiCompletion :: "string \<Rightarrow> chat_input \<Rightarrow> bool \<Rightarrow> upstream_error + completion"
  trpcCodeFromHttpStatus :: "nat option \<Rightarrow> trpc_code"
  statusCodeFromTrpcCode :: "trpc_code \<Rightarrow> nat"
  reqValidator :: "json \<Rightarrow> chat_input option"
  chatCompletionOutput :: "json \<Rightarrow> json option"
  calculateUsage :: "chat_input \<Rightarrow> json \<Rightarrow> fine_tune option \<Rightarrow> calculated_usage option"
  mergeChunks :: "json list \<Rightarrow> json"
  dateNow :: "nat \<Rightarrow> int"
  createLoggedCall :: "logged_call \<Rightarrow> string option"
  usageLogged :: "usage_call \<Rightarrow> bool"

text \<open>
  Modelled from the spec: \<^verbatim>\<open>typedFineTune\<close> (\<^verbatim>\<open>types/dbColumns.types\<close>) is not among
  the sources; it refines the static type of the Custom Model Record (section 3) and
  gives back the same record, so the test \<^verbatim>\<open>typedFT &&\<close> is always passed.
\<close>

definition typedFineTune :: "fine_tune \<Rightarrow> fine_tune" where
  "typedFineTune ft = ft"

text \<open>
  Modelled from the spec: \<^verbatim>\<open>recordLoggedCall\<close> (\<^verbatim>\<open>utils/recordRequest\<close>) is not among
  the sources. Section 4.7: it writes one Logged Call made of its arguments, append-only,
  and it can fail when the storage write fails (the \<open>report\<close> handler catches that).
\<close>

definition recordLoggedCall :: "env \<Rightarrow> logged_call \<Rightarrow> logged_call list \<Rightarrow> string + logged_call list" where
  "recordLoggedCall env a store =
     (case createLoggedCall env a of
        Some msg \<Rightarrow> Inl msg
      | None \<Rightarrow> Inr (store @ [a]))"

text \<open>
  Modelled from the spec: \<^verbatim>\<open>recordUsage\<close> (\<^verbatim>\<open>utils/recordRequest\<close>) is not among the
  sources. Sections 2 and 4.6: it reads a streamed completion to its end, computes the
  usage and runs the recording contract with status 200, which writes one Logged Call.
  Neither the sources nor the spec say what it does with the \<^verbatim>\<open>logRequest\<close> flag it
  is called with: whether it goes on to the write is left to the parameter
  \<open>usageLogged\<close>, so that nothing is assumed about it.
\<close>

definition recordUsage :: "env \<Rightarrow> usage_call \<Rightarrow> logged_call list \<Rightarrow> string + logged_call list" where
  "recordUsage env a store =
     (let completion = (case ru_completion a of
                          Whole c \<Rightarrow> c
                        | Streamed b \<Rightarrow> mergeChunks env (drain b));
          usage = calculateUsage env (ru_inputPayload a) completion (ru_fineTune a)
      in if usageLogged env a
         then recordLoggedCall env
                \<lparr>lc_projectId = ru_projectId a, lc_usage = usage,
                 lc_requestedAt = Some (ru_requestedAt a), lc_receivedAt = Some (ru_receivedAt a),
                 lc_reqPayload = InputPayload (ru_inputPayload a),
                 lc_respPayload = Some (CompletionPayload completion),
                 lc_statusCode = Some 200, lc_errorMessage = None, lc_tags = ru_tags a\<rparr>
                store
         else Inr store)"

text \<open>
  What happens after the handler has returned: the log store, what was reported to the
  observability sink (\<^verbatim>\<open>captureException\<close>), and the rejections nobody handled.
\<close>

record background =
  bg_store :: "logged_call list"
  bg_sink :: "string list"
  bg_unhandled :: "string list"

definition run_call :: "env \<Rightarrow> recorder_call \<Rightarrow> logged_call list \<Rightarrow> string + logged_call list" where
  "run_call env c store =
     (case c of
        RecordUsage a \<Rightarrow> recordUsage env a store
      | RecordLoggedCall a \<Rightarrow> recordLoggedCall env a store)"

definition run_dispatch :: "env \<Rightarrow> dispatch \<Rightarrow> background \<Rightarrow> background" where
  "run_dispatch env d bg =
     (case run_call env (d_call d) (bg_store bg) of
        Inr store' \<Rightarrow> bg\<lparr>bg_store := store'\<rparr>
      | Inl e \<Rightarrow> (case d_onReject d of
                   CaptureException \<Rightarrow> bg\<lparr>bg_sink := bg_sink bg @ [e]\<rparr>
                 | NoHandler \<Rightarrow> bg\<lparr>bg_unhandled := bg_unhandled bg @ [e]\<rparr>))"

fun run_dispatched :: "env \<Rightarrow> dispatch list \<Rightarrow> background \<Rightarrow> background" where
  "run_dispatched env [] bg = bg"
| "run_dispatched env (d # ds) bg = run_dispatched env ds (run_dispatch env d bg)"

section \<open>createChatCompletion\<close>

text \<open>\<^verbatim>\<open>s.startsWith(p)\<close>\<close>

definition startsWith :: "string \<Rightarrow> string \<Rightarrow> bool" where
  "startsWith p s = (take (length p) s = p)"

text \<open>\<^verbatim>\<open>s.replace(p, "")\<close> with a string pattern: the first occurrence is removed.\<close>

fun remove_first :: "string \<Rightarrow> string \<Rightarrow> string" where
  "remove_first p [] = []"
| "remove_first p (c # cs) =
     (if take (length p) (c # cs) = p then drop (length p) (c # cs)
      else c # remove_first p cs)"

text \<open>
  \<^verbatim>\<open>"reqPayload" in input ? parse(input.reqPayload) : parse(input)\<close>, before the
  \<^verbatim>\<open>try\<close> block.
\<close>

definition parsePayload :: "env \<Rightarrow> cc_input \<Rightarrow> string + chat_input" where
  "parsePayload env inp =
     (case in_reqPayload inp of
        Some p \<Rightarrow> chatCompletionInputReqPayload env p
      | None \<Rightarrow> chatCompletionInputReqPayload env (in_fields inp))"

definition logRequest :: "ctx \<Rightarrow> bool \<Rightarrow> bool" where
  "logRequest c isFineTune =
     ((op_log_request (ctx_headers c) = Some ''true'' \<or> \<not> isFineTune) \<and>
      op_log_request (ctx_headers c) \<noteq> Some ''false'' \<and>
      \<not> key_readOnly (ctx_key c))"

text \<open>
  The \<^verbatim>\<open>op-tags\<close> header: skipped when absent or empty (falsy); a failure of
  \<^verbatim>\<open>JSON.parse\<close> or \<^verbatim>\<open>parseTags\<close> becomes a \<^verbatim>\<open>BAD_REQUEST\<close>.
\<close>

definition readTags :: "env \<Rightarrow> ctx \<Rightarrow> thrown + tags" where
  "readTags env c =
     (case op_tags (ctx_headers c) of
        None \<Rightarrow> Inr []
      | Some h \<Rightarrow>
          if h = [] then Inr []
          else (case jsonParseTags env h of
                  Inl m \<Rightarrow> Inl (ThrownTRPC BAD_REQUEST (''Failed to parse tags: '' @ m))
                | Inr t \<Rightarrow> Inr t))"

text \<open>
  The provider dispatch inside the \<^verbatim>\<open>try\<close> block, after the tags: what is thrown
  or the completion with the fine-tune used, and the provider calls made.
\<close>

definition getCompletion ::
  "env \<Rightarrow> ctx \<Rightarrow> cc_input \<Rightarrow> chat_input \<Rightarrow> bool \<Rightarrow>
   (thrown + completion \<times> fine_tune option) \<times> provider_call list" where
  "getCompletion env c inp inputPayload isFineTune =
     (if isFineTune then
        (let modelSlug = remove_first ''openpipe:'' (ci_model inputPayload) in
         case findUnique env modelSlug of
           Inl e \<Rightarrow> (Inl (ThrownOther e), [])
         | Inr None \<Rightarrow>
             (Inl (ThrownTRPC NOT_FOUND
                    (''The model `'' @ ci_model inputPayload @ ''` does not exist'')), [])
         | Inr (Some fineTune) \<Rightarrow>
             (let typedFT = typedFineTune fineTune in
              if ft_projectId typedFT \<noteq> key_projectId (ctx_key c)
              then (Inl (ThrownTRPC FORBIDDEN ''The model does not belong to this project''), [])
              else (case getCompletion2 env typedFT inputPayload of
                      Inl m \<Rightarrow>
                        (Inl (ThrownTRPC BAD_REQUEST
                               (''Failed to get fine-tune completion: '' @ m)),
                         [GetCompletion2 typedFT])
                    | Inr completion \<Rightarrow>
                        (Inr (completion, Some fineTune), [GetCompletion2 typedFT]))))
      else
        (case getOpenaiCompletion env (key_projectId (ctx_key c)) inputPayload (in_stream inp) of
           Inl (APIError status m) \<Rightarrow>
             (Inl (ThrownTRPC (trpcCodeFromHttpStatus env status) m),
              [GetOpenaiCompletion (key_projectId (ctx_key c))])
         | Inl (UpstreamFailure m) \<Rightarrow>
             (Inl (ThrownTRPC BAD_REQUEST (''Failed to get OpenAI completion: '' @ m)),
              [GetOpenaiCompletion (key_projectId (ctx_key c))])
         | Inr completion \<Rightarrow>
             (Inr (completion, None), [GetOpenaiCompletion (key_projectId (ctx_key c))])))"

text \<open>
  The \<^verbatim>\<open>try\<close> block up to the completion, with the value the variable \<^verbatim>\<open>tags\<close>
  has when the block is left.
\<close>

definition tryBlock ::
  "env \<Rightarrow> ctx \<Rightarrow> cc_input \<Rightarrow> chat_input \<Rightarrow> bool \<Rightarrow>
   (thrown + completion \<times> fine_tune option) \<times> tags \<times> provider_call list" where
  "tryBlock env c inp inputPayload isFineTune =
     (case readTags env c of
        Inl t \<Rightarrow> (Inl t, [], [])
      | Inr tgs \<Rightarrow>
          (case getCompletion env c inp inputPayload isFineTune of
             (r, calls) \<Rightarrow> (r, tgs, calls)))"

record outcome =
  result :: "error + response"
  provider_calls :: "provider_call list"
  dispatched :: "dispatch list"

definition createChatCompletion :: "env \<Rightarrow> ctx \<Rightarrow> cc_input \<Rightarrow> outcome" where
  "createChatCompletion env c inp =
     (case parsePayload env inp of
        Inl z \<Rightarrow> \<lparr>result = Inl (ZodError z), provider_calls = [], dispatched = []\<rparr>
      | Inr inputPayload \<Rightarrow>
          (let requestedAt = dateNow env 0;
               isFineTune = startsWith ''openpipe:'' (ci_model inputPayload);
               logReq = logRequest c isFineTune
           in case tryBlock env c inp inputPayload isFineTune of
                (Inr (Stream chunks, fineTune), tgs, calls) \<Rightarrow>
                  (case tee chunks of
                     (recordStream, outputStream) \<Rightarrow>
                       \<lparr>result = Inr (ReadableStream outputStream),
                        provider_calls = calls,
                        dispatched =
                          [\<lparr>d_call = RecordUsage
                              \<lparr>ru_projectId = key_projectId (ctx_key c),
                               ru_requestedAt = requestedAt, ru_receivedAt = dateNow env 1,
                               ru_inputPayload = inputPayload,
                               ru_completion = Streamed recordStream,
                               ru_logRequest = logReq, ru_fineTune = fineTune,
                               ru_tags = tgs\<rparr>,
                            d_onReject = CaptureException\<rparr>]\<rparr>)
              | (Inr (ChatCompletion completion, fineTune), tgs, calls) \<Rightarrow>
                  \<lparr>result = Inr (Completion completion),
                   provider_calls = calls,
                   dispatched =
                     [\<lparr>d_call = RecordUsage
                         \<lparr>ru_projectId = key_projectId (ctx_key c),
                          ru_requestedAt = requestedAt, ru_receivedAt = dateNow env 1,
                          ru_inputPayload = inputPayload,
                          ru_completion = Whole completion,
                          ru_logRequest = logReq, ru_fineTune = fineTune,
                          ru_tags = tgs\<rparr>,
                       d_onReject = CaptureException\<rparr>]\<rparr>
              | (Inl (ThrownTRPC code message), tgs, calls) \<Rightarrow>
                  (let statusCode = statusCodeFromTrpcCode env code in
                   \<lparr>result = Inl (ExtendedTRPCError code message statusCode message),
                    provider_calls = calls,
                    dispatched =
                      [\<lparr>d_call = RecordLoggedCall
                          \<lparr>lc_projectId = key_projectId (ctx_key c), lc_usage = None,
                           lc_requestedAt = Some requestedAt,
                           lc_receivedAt = Some (dateNow env 1),
                           lc_reqPayload = InputPayload inputPayload,
                           lc_respPayload = Some (ErrorPayload code message),
                           lc_statusCode = Some statusCode,
                           lc_errorMessage = Some message, lc_tags = tgs\<rparr>,
                        d_onReject = NoHandler\<rparr>]\<rparr>)
              | (Inl (ThrownOther e), tgs, calls) \<Rightarrow>
                  \<lparr>result = Inl (OtherError e), provider_calls = calls, dispatched = []\<rparr>))"

text \<open>The request seen from outside: the handler runs, then the recorder calls it started.\<close>

definition after_request :: "env \<Rightarrow> ctx \<Rightarrow> cc_input \<Rightarrow> background \<Rightarrow> background" where
  "after_request env c inp bg = run_dispatched env (dispatched (createChatCompletion env c inp)) bg"

section \<open>report\<close>

record report_input =
  ri_requestedAt :: "int option"
  ri_receivedAt :: "int option"
  ri_reqPayload :: json
  ri_respPayload :: "json option"
  ri_statusCode :: "nat option"
  ri_errorMessage :: "string option"
  ri_tags :: raw_tags

datatype report_status = StatusOk | StatusError

text \<open>
  Modelled from the spec: the schema \<^verbatim>\<open>chatCompletionOutput\<close> is not among the sources.
  Section 8: an absent response payload never validates; a payload that is present is
  decided by the schema.
\<close>

definition chatCompletionOutput_spa :: "env \<Rightarrow> json option \<Rightarrow> json option" where
  "chatCompletionOutput_spa env p = (case p of None \<Rightarrow> None | Some j \<Rightarrow> chatCompletionOutput env j)"

text \<open>
  The usage computed by \<open>report\<close>: only when both payloads validate; \<open>Inl\<close> when
  the database lookup of the fine-tune throws.
\<close>

definition report_usage :: "env \<Rightarrow> report_input \<Rightarrow> string + calculated_usage option" where
  "report_usage env inp =
     (case (reqValidator env (ri_reqPayload inp), chatCompletionOutput_spa env (ri_respPayload inp)) of
        (Some reqData, Some respData) \<Rightarrow>
          (case findUnique env (remove_first ''openpipe:'' (ci_model reqData)) of
             Inl e \<Rightarrow> Inl e
           | Inr fineTune \<Rightarrow> Inr (calculateUsage env reqData respData fineTune))
      | _ \<Rightarrow> Inr None)"

text \<open>\<^verbatim>\<open>if (!input.requestedAt) input.requestedAt = Date.now()\<close>: absent and 0 are falsy.\<close>

definition report_requestedAt :: "env \<Rightarrow> report_input \<Rightarrow> int" where
  "report_requestedAt env inp =
     (case ri_requestedAt inp of
        None \<Rightarrow> dateNow env 0
      | Some t \<Rightarrow> if t = 0 then dateNow env 0 else t)"

text \<open>The argument object \<open>report\<close> passes to \<^verbatim>\<open>recordLoggedCall\<close>.\<close>

definition report_row ::
  "env \<Rightarrow> ctx \<Rightarrow> report_input \<Rightarrow> calculated_usage option \<Rightarrow> tags \<Rightarrow> logged_call" where
  "report_row env c inp usage tgs =
     \<lparr>lc_projectId = key_projectId (ctx_key c), lc_usage = usage,
      lc_requestedAt = Some (report_requestedAt env inp),
      lc_receivedAt = ri_receivedAt inp,
      lc_reqPayload = UnknownPayload (ri_reqPayload inp),
      lc_respPayload = map_option UnknownPayload (ri_respPayload inp),
      lc_statusCode = ri_statusCode inp,
      lc_errorMessage = ri_errorMessage inp, lc_tags = tgs\<rparr>"

definition report ::
  "env \<Rightarrow> ctx \<Rightarrow> report_input \<Rightarrow> logged_call list \<Rightarrow> (error + report_status) \<times> logged_call list" where
  "report env c inp store =
     (if key_readOnly (ctx_key c)
      then (Inl (TRPCError FORBIDDEN ''Read-only API keys cannot report API calls''), store)
      else
        (case report_usage env inp of
           Inl e \<Rightarrow> (Inl (OtherError e), store)
         | Inr usage \<Rightarrow>
             (case parseTags env (ri_tags inp) of
                Inl m \<Rightarrow> (Inl (TRPCError BAD_REQUEST (''Failed to parse tags: '' @ m)), store)
              | Inr tgs \<Rightarrow>
                  (case recordLoggedCall env (report_row env c inp usage tgs) store of
                     Inl m \<Rightarrow>
                       (Inl (TRPCError BAD_REQUEST (''Failed to create logged call: '' @ m)), store)
                   | Inr store' \<Rightarrow> (Inr StatusOk, store')))))"

section \<open>Example environment and requests\<close>

text \<open>
  A concrete instance of the collaborators, used to run the handlers: project \<open>p1\<close>
  owns the fine-tune \<open>ours\<close>, project \<open>p2\<close> owns \<open>theirs\<close>, no other slug exists;
  the upstream provider answers \<open>gpt-4\<close>, reports status 429 for \<open>gpt-busy\<close>,
  cannot be reached for \<open>gpt-offline\<close> (the client's statusless \<^verbatim>\<open>APIError\<close>) and
  fails otherwise; the tags header \<open>{}\<close> parses and nothing else does; \<^verbatim>\<open>recordUsage\<close>
  writes when its flag is set.
\<close>

definition ex_parse :: "json \<Rightarrow> string + chat_input" where
  "ex_parse j =
     (if j = ''gpt-4 hi'' then Inr \<lparr>ci_model = ''gpt-4'', ci_rest = ''hi''\<rparr>
      else if j = ''gpt-busy hi'' then Inr \<lparr>ci_model = ''gpt-busy'', ci_rest = ''hi''\<rparr>
      else if j = ''gpt-down hi'' then Inr \<lparr>ci_model = ''gpt-down'', ci_rest = ''hi''\<rparr>
      else if j = ''openpipe:my-model hi''
        then Inr \<lparr>ci_model = ''openpipe:my-model'', ci_rest = ''hi''\<rparr>
      else if j = ''openpipe:theirs hi''
        then Inr \<lparr>ci_model = ''openpipe:theirs'', ci_rest = ''hi''\<rparr>
      else if j = ''openpipe:ours hi''
        then Inr \<lparr>ci_model = ''openpipe:ours'', ci_rest = ''hi''\<rparr>
      else if j = ''gpt-offline hi''
        then Inr \<lparr>ci_model = ''gpt-offline'', ci_rest = ''hi''\<rparr>
      else Inl ''model: Required'')"

definition ex_env :: env where
  "ex_env =
     \<lparr>chatCompletionInputReqPayload = ex_parse,
      jsonParseTags =
        (\<lambda>h. if h = ''{}'' then Inr [] else Inl ''Unexpected end of JSON input''),
      parseTags =
        (\<lambda>ts. if length ts \<le> 1 then Inr (map (\<lambda>(k, v). (k, ''v'')) ts)
              else Inl ''too many tags''),
      findUnique =
        (\<lambda>slug.
           if slug = ''ours''
           then Inr (Some \<lparr>ft_id = ''ft1'', ft_slug = ''ours'', ft_projectId = ''p1''\<rparr>)
           else if slug = ''theirs''
           then Inr (Some \<lparr>ft_id = ''ft2'', ft_slug = ''theirs'', ft_projectId = ''p2''\<rparr>)
           else Inr None),
      getCompletion2 = (\<lambda>ft i. Inr (ChatCompletion ''tuned answer'')),
      getOpenaiCompletion =
        (\<lambda>p i s.
           if ci_model i = ''gpt-4''
           then (if s then Inr (Stream [''c1'', ''c2'', ''c3'']) else Inr (ChatCompletion ''answer''))
           else if ci_model i = ''gpt-busy'' then Inl (APIError (Some 429) ''Rate limit reached'')
           else if ci_model i = ''gpt-offline'' then Inl (APIError None ''Connection error.'')
           else Inl (UpstreamFailure ''socket hang up'')),
      trpcCodeFromHttpStatus =
        (\<lambda>s. if s = Some 429 then TOO_MANY_REQUESTS
             else if s = Some 404 then NOT_FOUND else INTERNAL_SERVER_ERROR),
      statusCodeFromTrpcCode =
        (\<lambda>c. if c = NOT_FOUND then 404 else if c = FORBIDDEN then 403
             else if c = BAD_REQUEST then 400 else if c = TOO_MANY_REQUESTS then 429 else 500),
      reqValidator = (\<lambda>j. case ex_parse j of Inl e \<Rightarrow> None | Inr i \<Rightarrow> Some i),
      chatCompletionOutput = (\<lambda>j. if j = ''answer'' then Some j else None),
      calculateUsage =
        (\<lambda>i c ft. Some \<lparr>inputTokens = length (ci_rest i), outputTokens = length c, cost = 0\<rparr>),
      mergeChunks = concat,
      dateNow = (\<lambda>n. 1000 + int n),
      createLoggedCall = (\<lambda>a. None),
      usageLogged = ru_logRequest\<rparr>"

text \<open>The same environment with a log store that refuses every write.\<close>

definition ex_env_down :: env where
  "ex_env_down = ex_env\<lparr>createLoggedCall := (\<lambda>a. Some ''storage unavailable'')\<rparr>"

definition ex_ctx :: ctx where
  "ex_ctx = \<lparr>ctx_key = \<lparr>key_projectId = ''p1'', key_readOnly = False\<rparr>,
             ctx_headers = \<lparr>op_log_request = None, op_tags = None\<rparr>\<rparr>"

definition ex_ctx_readonly :: ctx where
  "ex_ctx_readonly = \<lparr>ctx_key = \<lparr>key_projectId = ''p1'', key_readOnly = True\<rparr>,
                      ctx_headers = \<lparr>op_log_request = None, op_tags = None\<rparr>\<rparr>"

definition ex_ctx_nolog :: ctx where
  "ex_ctx_nolog = \<lparr>ctx_key = \<lparr>key_projectId = ''p1'', key_readOnly = False\<rparr>,
                   ctx_headers = \<lparr>op_log_request = Some ''false'', op_tags = None\<rparr>\<rparr>"

definition ex_ctx_badtags :: ctx where
  "ex_ctx_badtags = \<lparr>ctx_key = \<lparr>key_projectId = ''p1'', key_readOnly = False\<rparr>,
                     ctx_headers = \<lparr>op_log_request = None, op_tags = Some ''{''\<rparr>\<rparr>"

definition ex_request :: "json \<Rightarrow> cc_input" where
  "ex_request j = \<lparr>in_reqPayload = None, in_fields = j, in_stream = False\<rparr>"

definition ex_stream_request :: cc_input where
  "ex_stream_request = \<lparr>in_reqPayload = None, in_fields = ''gpt-4 hi'', in_stream = True\<rparr>"

definition ex_report :: "json option \<Rightarrow> raw_tags \<Rightarrow> report_input" where
  "ex_report resp tgs =
     \<lparr>ri_requestedAt = None, ri_receivedAt = Some 1700, ri_reqPayload = ''gpt-4 hi'',
      ri_respPayload = resp, ri_statusCode = Some 200, ri_errorMessage = None,
      ri_tags = tgs\<rparr>"

definition bg0 :: background where
  "bg0 = \<lparr>bg_store = [], bg_sink = [], bg_unhandled = []\<rparr>"

lemmas ex_defs =
  ex_env_def ex_env_down_def ex_parse_def ex_ctx_def ex_ctx_readonly_def ex_ctx_nolog_def
  ex_ctx_badtags_def ex_request_def ex_stream_request_def ex_report_def bg0_def

lemmas handler_defs =
  createChatCompletion_def parsePayload_def tryBlock_def readTags_def getCompletion_def
  logRequest_def startsWith_def typedFineTune_def tee_def

lemmas recorder_defs =
  after_request_def run_dispatch_def run_call_def recordUsage_def recordLoggedCall_def

lemmas report_defs =
  report_def report_row_def report_usage_def report_requestedAt_def chatCompletionOutput_spa_def
  recordLoggedCall_def

section \<open>Properties of the stream split\<close>

text \<open>
  Whatever the order of the reads, what a consumer has seen followed by what is still
  waiting for it (its buffer, then the rest of the source) is the original stream.
\<close>

lemma tee_next_inv:
  "seen s (tee_next t st) @ pending s (tee_next t st) = seen s st @ pending s st"
  by (cases s; cases t) (auto split: list.splits)

lemma tee_run_inv:
  "seen s (tee_run sched st) @ pending s (tee_run sched st) = seen s st @ pending s st"
  by (induction sched arbitrary: st) (simp_all add: tee_next_inv)

text \<open>Only a consumer's own reads shorten what is waiting for it, by one chunk each.\<close>

lemma tee_next_pending:
  "length (pending s (tee_next t st)) = length (pending s st) - (if t = s then 1 else 0)"
  by (cases s; cases t) (auto split: list.splits)

lemma tee_run_pending:
  "length (pending s (tee_run sched st)) = length (pending s st) - count_list sched s"
  by (induction sched arbitrary: st) (auto simp: tee_next_pending)

lemma tee_init_seen: "seen s (tee_init cs) = []"
  by (cases s) (simp_all add: tee_init_def)

lemma tee_init_pending: "pending s (tee_init cs) = cs"
  by (cases s) (simp_all add: tee_init_def)

lemma tee_run_prefix: "prefix (seen s (tee_run sched (tee_init cs))) cs"
proof -
  have "seen s (tee_run sched (tee_init cs)) @ pending s (tee_run sched (tee_init cs)) = cs"
    by (simp add: tee_run_inv tee_init_seen tee_init_pending)
  then show ?thesis
    by (metis prefixI)
qed

lemma tee_run_complete:
  assumes "length cs \<le> count_list sched s"
  shows "seen s (tee_run sched (tee_init cs)) = cs"
proof -
  have "length (pending s (tee_run sched (tee_init cs))) = 0"
    using assms by (simp add: tee_run_pending tee_init_pending)
  then have "pending s (tee_run sched (tee_init cs)) = []"
    by simp
  with tee_run_inv [of s sched "tee_init cs"] show ?thesis
    by (simp add: tee_init_seen tee_init_pending)
qed

lemma count_list_replicate_same: "count_list (replicate n s) s = n"
  by (induction n) simp_all

lemma drain_branch: "drain (Branch s cs) = cs"
  by (simp add: tee_run_complete count_list_replicate_same)

section \<open>The handlers on the example requests\<close>

lemma ex_report_answer:
  "report ex_env ex_ctx (ex_report (Some ''answer'') []) [] =
     (Inr StatusOk,
      [\<lparr>lc_projectId = ''p1'',
        lc_usage = Some \<lparr>inputTokens = 2, outputTokens = 6, cost = 0\<rparr>,
        lc_requestedAt = Some 1000, lc_receivedAt = Some 1700,
        lc_reqPayload = UnknownPayload ''gpt-4 hi'',
        lc_respPayload = Some (UnknownPayload ''answer''),
        lc_statusCode = Some 200, lc_errorMessage = None, lc_tags = []\<rparr>])"
  by (simp add: ex_defs report_defs)

lemma ex_report_absent:
  "report ex_env ex_ctx (ex_report None []) [] =
     (Inr StatusOk,
      [\<lparr>lc_projectId = ''p1'', lc_usage = None,
        lc_requestedAt = Some 1000, lc_receivedAt = Some 1700,
        lc_reqPayload = UnknownPayload ''gpt-4 hi'',
        lc_respPayload = None,
        lc_statusCode = Some 200, lc_errorMessage = None, lc_tags = []\<rparr>])"
  by (simp add: ex_defs report_defs)

lemma ex_report_storage_down:
  "report ex_env_down ex_ctx (ex_report (Some ''garbage'') []) [] =
     (Inl (TRPCError BAD_REQUEST ''Failed to create logged call: storage unavailable''), [])"
  by (simp add: ex_defs report_defs)

lemma ex_report_bad_tags:
  "report ex_env ex_ctx
       (ex_report (Some ''garbage'') [(''a'', TagString ''1''), (''b'', TagNull)]) [] =
     (Inl (TRPCError BAD_REQUEST ''Failed to parse tags: too many tags''), [])"
  by (simp add: ex_defs report_defs)

lemma ex_storage_up: "\<forall>a. createLoggedCall ex_env a = None"
  by (simp add: ex_env_def)



lemma report_row_fields:
  "lc_usage (report_row env c inp usage tgs) = usage"
  "lc_reqPayload (report_row env c inp usage tgs) = UnknownPayload (ri_reqPayload inp)"
  "lc_respPayload (report_row env c inp usage tgs) = map_option UnknownPayload (ri_respPayload inp)"
  "lc_statusCode (report_row env c inp usage tgs) = ri_statusCode inp"
  "lc_errorMessage (report_row env c inp usage tgs) = ri_errorMessage inp"
  "lc_tags (report_row env c inp usage tgs) = tgs"
  by (simp_all add: report_row_def)

section \<open>The report operation\<close>

text \<open>
  C3. When \<open>report\<close> is called with a read-only credential it fails with
  \<^verbatim>\<open>FORBIDDEN\<close> and the store of Logged Calls is what it was: nothing is written.
\<close>

theorem report_readOnly_forbidden:
  "key_readOnly (ctx_key c) \<Longrightarrow>
   report env c inp store =
     (Inl (TRPCError FORBIDDEN ''Read-only API keys cannot report API calls''), store)"
  by (simp add: report_def)

theorem report_readOnly_forbidden_witness:
  "key_readOnly (ctx_key ex_ctx_readonly) \<and>
   report ex_env ex_ctx_readonly (ex_report (Some ''answer'') []) [] =
     (Inl (TRPCError FORBIDDEN ''Read-only API keys cannot report API calls''), [])"
  using report_readOnly_forbidden [of ex_ctx_readonly ex_env "ex_report (Some ''answer'') []" "[]"]
  by (simp add: ex_ctx_readonly_def)




text \<open>
  C10, as amended. When \<open>report\<close> is called with a credential that is not read-only
  and the request or the response payload fails validation: if the tags parse and the
  write of the Logged Call succeeds, the call is answered \<^verbatim>\<open>{status: "ok"}\<close> and one
  Logged Call is written, with usage unset and the payloads as they were supplied; if
  \<^verbatim>\<open>parseTags\<close> fails, or the tags parse and the write fails, the call is answered
  with a \<^verbatim>\<open>BAD_REQUEST\<close> error and nothing is written. (As stated, without the two
  conditions, it fails.)
\<close>

theorem report_invalid_payload_logged:
  assumes "\<not> key_readOnly (ctx_key c)"
    and "reqValidator env (ri_reqPayload inp) = None \<or>
         chatCompletionOutput_spa env (ri_respPayload inp) = None"
  shows "(parseTags env (ri_tags inp) = Inr tgs \<and>
          createLoggedCall env (report_row env c inp None tgs) = None \<longrightarrow>
            report env c inp store = (Inr StatusOk, store @ [report_row env c inp None tgs]) \<and>
            lc_usage (report_row env c inp None tgs) = None \<and>
            lc_reqPayload (report_row env c inp None tgs) = UnknownPayload (ri_reqPayload inp) \<and>
            lc_respPayload (report_row env c inp None tgs) =
              map_option UnknownPayload (ri_respPayload inp) \<and>
            lc_statusCode (report_row env c inp None tgs) = ri_statusCode inp \<and>
            lc_errorMessage (report_row env c inp None tgs) = ri_errorMessage inp \<and>
            lc_tags (report_row env c inp None tgs) = tgs) \<and>
         (parseTags env (ri_tags inp) = Inl m \<longrightarrow>
            report env c inp store =
              (Inl (TRPCError BAD_REQUEST (''Failed to parse tags: '' @ m)), store)) \<and>
         (parseTags env (ri_tags inp) = Inr tgs \<and>
          createLoggedCall env (report_row env c inp None tgs) = Some m \<longrightarrow>
            report env c inp store =
              (Inl (TRPCError BAD_REQUEST (''Failed to create logged call: '' @ m)), store))"
  using assms
  by (auto simp: report_def report_usage_def recordLoggedCall_def report_row_fields
      split: option.splits)

theorem report_invalid_payload_logged_witness:
  "(report ex_env ex_ctx (ex_report (Some ''garbage'') []) [] =
      (Inr StatusOk, [report_row ex_env ex_ctx (ex_report (Some ''garbage'') []) None []]) \<and>
    lc_usage (report_row ex_env ex_ctx (ex_report (Some ''garbage'') []) None []) = None \<and>
    lc_reqPayload (report_row ex_env ex_ctx (ex_report (Some ''garbage'') []) None []) =
      UnknownPayload ''gpt-4 hi'' \<and>
    lc_respPayload (report_row ex_env ex_ctx (ex_report (Some ''garbage'') []) None []) =
      Some (UnknownPayload ''garbage'')) \<and>
   report ex_env ex_ctx
       (ex_report (Some ''garbage'') [(''a'', TagString ''1''), (''b'', TagNull)]) [] =
     (Inl (TRPCError BAD_REQUEST ''Failed to parse tags: too many tags''), []) \<and>
   report ex_env_down ex_ctx (ex_report (Some ''garbage'') []) [] =
     (Inl (TRPCError BAD_REQUEST ''Failed to create logged call: storage unavailable''), [])"
proof -
  have k: "\<not> key_readOnly (ctx_key ex_ctx)"
    by (simp add: ex_ctx_def)
  have v: "reqValidator e (ri_reqPayload (ex_report (Some ''garbage'') ts)) = None \<or>
           chatCompletionOutput_spa e (ri_respPayload (ex_report (Some ''garbage'') ts)) = None"
    if "chatCompletionOutput e ''garbage'' = None" for e ts
    using that by (simp add: ex_report_def chatCompletionOutput_spa_def)
  have g: "chatCompletionOutput ex_env ''garbage'' = None"
    "chatCompletionOutput ex_env_down ''garbage'' = None"
    by (simp_all add: ex_env_def ex_env_down_def)
  have t1: "parseTags ex_env (ri_tags (ex_report (Some ''garbage'') [])) = Inr []"
    "parseTags ex_env_down (ri_tags (ex_report (Some ''garbage'') [])) = Inr []"
    by (simp_all add: ex_env_def ex_env_down_def ex_report_def)
  have t2: "parseTags ex_env
              (ri_tags (ex_report (Some ''garbage'') [(''a'', TagString ''1''), (''b'', TagNull)])) =
            Inl ''too many tags''"
    by (simp add: ex_env_def ex_report_def)
  have w: "createLoggedCall ex_env_down row = Some ''storage unavailable''" for row
    by (simp add: ex_env_down_def ex_env_def)
  have a: "report ex_env ex_ctx (ex_report (Some ''garbage'') []) [] =
             (Inr StatusOk, [report_row ex_env ex_ctx (ex_report (Some ''garbage'') []) None []]) \<and>
           lc_usage (report_row ex_env ex_ctx (ex_report (Some ''garbage'') []) None []) = None \<and>
           lc_reqPayload (report_row ex_env ex_ctx (ex_report (Some ''garbage'') []) None []) =
             UnknownPayload ''gpt-4 hi'' \<and>
           lc_respPayload (report_row ex_env ex_ctx (ex_report (Some ''garbage'') []) None []) =
             Some (UnknownPayload ''garbage'')"
    using report_invalid_payload_logged [OF k v [OF g(1)], of "[]" "[]" "[]"] t1(1) ex_storage_up
    by (simp add: ex_report_def)
  have b: "report ex_env ex_ctx
               (ex_report (Some ''garbage'') [(''a'', TagString ''1''), (''b'', TagNull)]) [] =
             (Inl (TRPCError BAD_REQUEST ''Failed to parse tags: too many tags''), [])"
    using report_invalid_payload_logged [OF k v [OF g(1)], of _ _ "[]" "''too many tags''"] t2
    by simp
  have c: "report ex_env_down ex_ctx (ex_report (Some ''garbage'') []) [] =
             (Inl (TRPCError BAD_REQUEST ''Failed to create logged call: storage unavailable''), [])"
    using report_invalid_payload_logged [OF k v [OF g(2)], of "[]" "[]" "[]" "''storage unavailable''"]
      t1(2) w
    by simp
  from a b c show ?thesis
    by (intro conjI) simp_all
qed

theorem report_invalid_payload_counterexample:
  "\<not> key_readOnly (ctx_key ex_ctx) \<and>
   chatCompletionOutput_spa ex_env_down (ri_respPayload (ex_report (Some ''garbage'') [])) = None \<and>
   report ex_env_down ex_ctx (ex_report (Some ''garbage'') []) [] =
     (Inl (TRPCError BAD_REQUEST ''Failed to create logged call: storage unavailable''), []) \<and>
   report ex_env ex_ctx
       (ex_report (Some ''garbage'') [(''a'', TagString ''1''), (''b'', TagNull)]) [] =
     (Inl (TRPCError BAD_REQUEST ''Failed to parse tags: too many tags''), [])"
proof -
  have a: "\<not> key_readOnly (ctx_key ex_ctx)"
    by (simp add: ex_ctx_def)
  have b: "chatCompletionOutput_spa ex_env_down (ri_respPayload (ex_report (Some ''garbage'') [])) = None"
    by (simp add: ex_env_down_def ex_env_def ex_report_def chatCompletionOutput_spa_def)
  show ?thesis
    by (intro conjI a b ex_report_storage_down ex_report_bad_tags)
qed

section \<open>createChatCompletion on the example requests\<close>

lemma ex_parse_request:
  "parsePayload ex_env (ex_request ''gpt-4 hi'') = Inr \<lparr>ci_model = ''gpt-4'', ci_rest = ''hi''\<rparr>"
  "parsePayload ex_env (ex_request ''gpt-busy hi'') = Inr \<lparr>ci_model = ''gpt-busy'', ci_rest = ''hi''\<rparr>"
  "parsePayload ex_env (ex_request ''gpt-down hi'') = Inr \<lparr>ci_model = ''gpt-down'', ci_rest = ''hi''\<rparr>"
  "parsePayload ex_env (ex_request ''openpipe:my-model hi'') =
     Inr \<lparr>ci_model = ''openpipe:my-model'', ci_rest = ''hi''\<rparr>"
  "parsePayload ex_env (ex_request ''openpipe:theirs hi'') =
     Inr \<lparr>ci_model = ''openpipe:theirs'', ci_rest = ''hi''\<rparr>"
  "parsePayload ex_env (ex_request ''gpt-offline hi'') =
     Inr \<lparr>ci_model = ''gpt-offline'', ci_rest = ''hi''\<rparr>"
  by (simp_all add: parsePayload_def ex_env_def ex_request_def ex_parse_def)

lemma ex_readTags:
  "readTags ex_env ex_ctx = Inr []"
  "readTags ex_env ex_ctx_nolog = Inr []"
  by (simp_all add: readTags_def ex_ctx_def ex_ctx_nolog_def)

lemma ex_gpt4_result:
  "result (createChatCompletion ex_env ex_ctx (ex_request ''gpt-4 hi'')) = Inr (Completion ''answer'')"
  by (simp add: ex_defs handler_defs)


lemma ex_stream_provider:
  "getOpenaiCompletion ex_env (key_projectId (ctx_key ex_ctx))
     \<lparr>ci_model = ''gpt-4'', ci_rest = ''hi''\<rparr> (in_stream ex_stream_request) =
   Inr (Stream [''c1'', ''c2'', ''c3''])"
  by (simp add: ex_env_def ex_stream_request_def)

lemma ex_stream_parse:
  "parsePayload ex_env ex_stream_request = Inr \<lparr>ci_model = ''gpt-4'', ci_rest = ''hi''\<rparr>"
  by (simp add: parsePayload_def ex_env_def ex_stream_request_def ex_parse_def)

lemma ex_offline_provider:
  "getOpenaiCompletion ex_env (key_projectId (ctx_key ex_ctx))
     \<lparr>ci_model = ''gpt-offline'', ci_rest = ''hi''\<rparr> (in_stream (ex_request ''gpt-offline hi'')) =
   Inl (APIError None ''Connection error.'')"
  by (simp add: ex_env_def)

lemma ex_offline_result:
  "result (createChatCompletion ex_env ex_ctx (ex_request ''gpt-offline hi'')) =
     Inl (ExtendedTRPCError INTERNAL_SERVER_ERROR ''Connection error.'' 500 ''Connection error.'')"
  by (simp add: ex_defs handler_defs)




lemma ex_stream_result:
  "result (createChatCompletion ex_env ex_ctx ex_stream_request) =
     Inr (ReadableStream (Branch RightBranch [''c1'', ''c2'', ''c3'']))"
  by (simp add: ex_defs handler_defs)

lemma ex_missing_bad_tags_result:
  "result (createChatCompletion ex_env ex_ctx_badtags (ex_request ''openpipe:my-model hi'')) =
     Inl (ExtendedTRPCError BAD_REQUEST ''Failed to parse tags: Unexpected end of JSON input'' 400
           ''Failed to parse tags: Unexpected end of JSON input'')"
  by (simp add: ex_defs handler_defs)

lemma ex_missing_result:
  "result (createChatCompletion ex_env_down ex_ctx (ex_request ''openpipe:my-model hi'')) =
     Inl (ExtendedTRPCError NOT_FOUND ''The model `openpipe:my-model` does not exist'' 404
           ''The model `openpipe:my-model` does not exist'')"
  by (simp add: ex_defs handler_defs)

lemma ex_missing_store:
  "map lc_respPayload
     (bg_store (after_request ex_env ex_ctx (ex_request ''openpipe:my-model hi'') bg0)) =
   [Some (ErrorPayload NOT_FOUND ''The model `openpipe:my-model` does not exist'')]"
  by (simp add: ex_defs handler_defs recorder_defs)

lemma ex_missing_storage_down:
  "after_request ex_env_down ex_ctx (ex_request ''openpipe:my-model hi'') bg0 =
     \<lparr>bg_store = [], bg_sink = [], bg_unhandled = [''storage unavailable'']\<rparr>"
  by (simp add: ex_defs handler_defs recorder_defs)

lemma ex_gpt4_storage_down:
  "after_request ex_env_down ex_ctx (ex_request ''gpt-4 hi'') bg0 =
     \<lparr>bg_store = [], bg_sink = [''storage unavailable''], bg_unhandled = []\<rparr>"
  by (simp add: ex_defs handler_defs recorder_defs)

section \<open>The recorder never decides the answer\<close>

text \<open>
  The handler does not await the recorder: its answer and the calls it starts are the
  same whatever the storage write, the usage computation, the merging of chunks and
  the recorder's own decision to write do.
\<close>

lemma tryBlock_without_recorder:
  "tryBlock (env\<lparr>createLoggedCall := w, calculateUsage := u, mergeChunks := g,
               usageLogged := l\<rparr>) c inp ip ft =
   tryBlock env c inp ip ft"
  by (simp add: tryBlock_def readTags_def getCompletion_def
      cong: sum.case_cong option.case_cong upstream_error.case_cong if_cong)

lemma recorder_never_changes_outcome:
  "createChatCompletion (env\<lparr>createLoggedCall := w, calculateUsage := u, mergeChunks := g,
                           usageLogged := l\<rparr>) c inp =
   createChatCompletion env c inp"
  by (simp add: createChatCompletion_def parsePayload_def tryBlock_without_recorder
      cong: sum.case_cong option.case_cong prod.case_cong thrown.case_cong completion.case_cong)

text \<open>
  Every \<^verbatim>\<open>recordUsage\<close> the handler starts carries the \<^verbatim>\<open>captureException\<close> handler;
  the \<^verbatim>\<open>recordLoggedCall\<close> of the catch block carries none.
\<close>

lemma recordUsage_dispatch_caught:
  "d \<in> set (dispatched (createChatCompletion env c inp)) \<Longrightarrow> d_call d = RecordUsage a \<Longrightarrow>
   d_onReject d = CaptureException"
  by (auto simp: createChatCompletion_def Let_def tee_def
      split: prod.splits sum.splits thrown.splits completion.splits)

lemma recordLoggedCall_dispatch_detached:
  "d \<in> set (dispatched (createChatCompletion env c inp)) \<Longrightarrow> d_call d = RecordLoggedCall a \<Longrightarrow>
   d_onReject d = NoHandler"
  by (auto simp: createChatCompletion_def Let_def tee_def
      split: prod.splits sum.splits thrown.splits completion.splits)





lemma remove_first_prefix: "remove_first ''openpipe:'' (''openpipe:'' @ slug) = slug"
  by simp

lemma stream_result_split:
  assumes "result (createChatCompletion env c inp) = Inr (ReadableStream outputStream)"
  shows "\<exists>chunks a.
           outputStream = Branch RightBranch chunks \<and>
           dispatched (createChatCompletion env c inp) =
             [\<lparr>d_call = RecordUsage a, d_onReject = CaptureException\<rparr>] \<and>
           ru_completion a = Streamed (Branch LeftBranch chunks)"
  using assms
  by (auto simp: createChatCompletion_def Let_def tee_def
      split: prod.splits sum.splits thrown.splits completion.splits)

section \<open>Routing of createChatCompletion\<close>

text \<open>
  C2, as amended. For a request whose payload parses, whose model identifier is
  \<^verbatim>\<open>openpipe:\<close> followed by a slug, and whose \<^verbatim>\<open>op-tags\<close> header is absent, empty or
  parses: when the slug resolves to no fine-tune the caller gets \<^verbatim>\<open>NOT_FOUND\<close>, and
  when it resolves to a fine-tune of another project the caller gets \<^verbatim>\<open>FORBIDDEN\<close>;
  in both cases no provider has been called. (As stated, for every such request, it
  fails: a malformed \<^verbatim>\<open>op-tags\<close> header is rejected first, with \<^verbatim>\<open>BAD_REQUEST\<close>.)
\<close>

theorem custom_model_guards:
  assumes "parsePayload env inp = Inr ip"
    and "ci_model ip = ''openpipe:'' @ slug"
    and "readTags env c = Inr tgs"
  shows "(findUnique env slug = Inr None \<longrightarrow>
            result (createChatCompletion env c inp) =
              Inl (ExtendedTRPCError NOT_FOUND (''The model `'' @ ci_model ip @ ''` does not exist'')
                    (statusCodeFromTrpcCode env NOT_FOUND)
                    (''The model `'' @ ci_model ip @ ''` does not exist'')) \<and>
            provider_calls (createChatCompletion env c inp) = []) \<and>
         (\<forall>ft. findUnique env slug = Inr (Some ft) \<and>
               ft_projectId ft \<noteq> key_projectId (ctx_key c) \<longrightarrow>
            result (createChatCompletion env c inp) =
              Inl (ExtendedTRPCError FORBIDDEN ''The model does not belong to this project''
                    (statusCodeFromTrpcCode env FORBIDDEN)
                    ''The model does not belong to this project'') \<and>
            provider_calls (createChatCompletion env c inp) = [])"
  using assms
  by (simp add: createChatCompletion_def tryBlock_def getCompletion_def Let_def
      startsWith_def typedFineTune_def)

theorem custom_model_guards_witness:
  "(result (createChatCompletion ex_env ex_ctx (ex_request ''openpipe:my-model hi'')) =
      Inl (ExtendedTRPCError NOT_FOUND ''The model `openpipe:my-model` does not exist'' 404
            ''The model `openpipe:my-model` does not exist'') \<and>
    provider_calls (createChatCompletion ex_env ex_ctx (ex_request ''openpipe:my-model hi'')) = []) \<and>
   (result (createChatCompletion ex_env ex_ctx (ex_request ''openpipe:theirs hi'')) =
      Inl (ExtendedTRPCError FORBIDDEN ''The model does not belong to this project'' 403
            ''The model does not belong to this project'') \<and>
    provider_calls (createChatCompletion ex_env ex_ctx (ex_request ''openpipe:theirs hi'')) = [])"
proof -
  have m1: "ci_model \<lparr>ci_model = ''openpipe:my-model'', ci_rest = ''hi''\<rparr> = ''openpipe:'' @ ''my-model''"
    by simp
  have m2: "ci_model \<lparr>ci_model = ''openpipe:theirs'', ci_rest = ''hi''\<rparr> = ''openpipe:'' @ ''theirs''"
    by simp
  have a: "result (createChatCompletion ex_env ex_ctx (ex_request ''openpipe:my-model hi'')) =
             Inl (ExtendedTRPCError NOT_FOUND ''The model `openpipe:my-model` does not exist'' 404
                   ''The model `openpipe:my-model` does not exist'') \<and>
           provider_calls (createChatCompletion ex_env ex_ctx (ex_request ''openpipe:my-model hi'')) = []"
    using custom_model_guards [OF ex_parse_request(4) m1 ex_readTags(1)]
    by (simp add: ex_env_def)
  have b: "result (createChatCompletion ex_env ex_ctx (ex_request ''openpipe:theirs hi'')) =
             Inl (ExtendedTRPCError FORBIDDEN ''The model does not belong to this project'' 403
                   ''The model does not belong to this project'') \<and>
           provider_calls (createChatCompletion ex_env ex_ctx (ex_request ''openpipe:theirs hi'')) = []"
    using custom_model_guards [OF ex_parse_request(5) m2 ex_readTags(1)]
    by (simp add: ex_env_def ex_ctx_def)
  from a b show ?thesis
    by (intro conjI) simp_all
qed

theorem custom_model_guards_counterexample:
  "parsePayload ex_env (ex_request ''openpipe:my-model hi'') =
     Inr \<lparr>ci_model = ''openpipe:my-model'', ci_rest = ''hi''\<rparr> \<and>
   findUnique ex_env (remove_first ''openpipe:'' ''openpipe:my-model'') = Inr None \<and>
   result (createChatCompletion ex_env ex_ctx_badtags (ex_request ''openpipe:my-model hi'')) =
     Inl (ExtendedTRPCError BAD_REQUEST ''Failed to parse tags: Unexpected end of JSON input'' 400
           ''Failed to parse tags: Unexpected end of JSON input'')"
proof -
  have "findUnique ex_env (remove_first ''openpipe:'' ''openpipe:my-model'') = Inr None"
    by (simp add: ex_env_def)
  then show ?thesis
    by (intro conjI ex_parse_request(4) ex_missing_bad_tags_result)
qed

text \<open>
  C6, as amended. For a request that reaches the upstream provider (the payload parses,
  the model identifier has no \<^verbatim>\<open>openpipe:\<close> prefix, the tags are accepted): every
  \<^verbatim>\<open>APIError\<close> of the provider, with or without a status, is raised to the caller with
  the provider's message unchanged and the code \<^verbatim>\<open>trpcCodeFromHttpStatus\<close> gives
  for its status; every failure that is not an \<^verbatim>\<open>APIError\<close> is raised as
  \<^verbatim>\<open>BAD_REQUEST\<close> with the message prefixed by \<open>Failed to get OpenAI completion\<close>.
  (As stated, with every failure that carries no status wrapped as a bad request, it
  fails: an \<^verbatim>\<open>APIError\<close> without a status, such as the client's connection error, is
  passed through and not wrapped.)
\<close>

theorem upstream_error_translation:
  assumes "parsePayload env inp = Inr ip"
    and "\<not> startsWith ''openpipe:'' (ci_model ip)"
    and "readTags env c = Inr tgs"
  shows "(getOpenaiCompletion env (key_projectId (ctx_key c)) ip (in_stream inp) =
            Inl (APIError status m) \<longrightarrow>
            result (createChatCompletion env c inp) =
              Inl (ExtendedTRPCError (trpcCodeFromHttpStatus env status) m
                    (statusCodeFromTrpcCode env (trpcCodeFromHttpStatus env status)) m) \<and>
            provider_calls (createChatCompletion env c inp) =
              [GetOpenaiCompletion (key_projectId (ctx_key c))]) \<and>
         (getOpenaiCompletion env (key_projectId (ctx_key c)) ip (in_stream inp) =
            Inl (UpstreamFailure m) \<longrightarrow>
            result (createChatCompletion env c inp) =
              Inl (ExtendedTRPCError BAD_REQUEST (''Failed to get OpenAI completion: '' @ m)
                    (statusCodeFromTrpcCode env BAD_REQUEST)
                    (''Failed to get OpenAI completion: '' @ m)) \<and>
            provider_calls (createChatCompletion env c inp) =
              [GetOpenaiCompletion (key_projectId (ctx_key c))])"
  using assms
  by (simp add: createChatCompletion_def tryBlock_def getCompletion_def Let_def)

theorem upstream_error_translation_witness:
  "result (createChatCompletion ex_env ex_ctx (ex_request ''gpt-busy hi'')) =
     Inl (ExtendedTRPCError TOO_MANY_REQUESTS ''Rate limit reached'' 429 ''Rate limit reached'') \<and>
   result (createChatCompletion ex_env ex_ctx (ex_request ''gpt-offline hi'')) =
     Inl (ExtendedTRPCError INTERNAL_SERVER_ERROR ''Connection error.'' 500 ''Connection error.'') \<and>
   result (createChatCompletion ex_env ex_ctx (ex_request ''gpt-down hi'')) =
     Inl (ExtendedTRPCError BAD_REQUEST ''Failed to get OpenAI completion: socket hang up'' 400
           ''Failed to get OpenAI completion: socket hang up'')"
proof -
  have n1: "\<not> startsWith ''openpipe:'' (ci_model \<lparr>ci_model = ''gpt-busy'', ci_rest = ''hi''\<rparr>)"
    by (simp add: startsWith_def)
  have n2: "\<not> startsWith ''openpipe:'' (ci_model \<lparr>ci_model = ''gpt-down'', ci_rest = ''hi''\<rparr>)"
    by (simp add: startsWith_def)
  have n3: "\<not> startsWith ''openpipe:'' (ci_model \<lparr>ci_model = ''gpt-offline'', ci_rest = ''hi''\<rparr>)"
    by (simp add: startsWith_def)
  have a: "result (createChatCompletion ex_env ex_ctx (ex_request ''gpt-busy hi'')) =
             Inl (ExtendedTRPCError TOO_MANY_REQUESTS ''Rate limit reached'' 429 ''Rate limit reached'')"
    using upstream_error_translation [OF ex_parse_request(2) n1 ex_readTags(1),
        where status = "Some 429" and m = "''Rate limit reached''"]
    by (simp add: ex_env_def)
  have b: "result (createChatCompletion ex_env ex_ctx (ex_request ''gpt-down hi'')) =
             Inl (ExtendedTRPCError BAD_REQUEST ''Failed to get OpenAI completion: socket hang up'' 400
                   ''Failed to get OpenAI completion: socket hang up'')"
    using upstream_error_translation [OF ex_parse_request(3) n2 ex_readTags(1),
        where status = None and m = "''socket hang up''"]
    by (simp add: ex_env_def)
  have c: "result (createChatCompletion ex_env ex_ctx (ex_request ''gpt-offline hi'')) =
             Inl (ExtendedTRPCError INTERNAL_SERVER_ERROR ''Connection error.'' 500
                   ''Connection error.'')"
    using upstream_error_translation [OF ex_parse_request(6) n3 ex_readTags(1),
        where status = None and m = "''Connection error.''"]
    by (simp add: ex_env_def)
  from a b c show ?thesis
    by (intro conjI)
qed

theorem upstream_error_translation_counterexample:
  "getOpenaiCompletion ex_env (key_projectId (ctx_key ex_ctx))
     \<lparr>ci_model = ''gpt-offline'', ci_rest = ''hi''\<rparr> (in_stream (ex_request ''gpt-offline hi'')) =
     Inl (APIError None ''Connection error.'') \<and>
   result (createChatCompletion ex_env ex_ctx (ex_request ''gpt-offline hi'')) =
     Inl (ExtendedTRPCError INTERNAL_SERVER_ERROR ''Connection error.'' 500 ''Connection error.'')"
  by (intro conjI ex_offline_provider ex_offline_result)

section \<open>Recording of createChatCompletion\<close>

text \<open>
  C7, as amended. For a request whose payload parses, whose tags are accepted and which
  names a custom model whose slug does not exist, the caller receives the \<^verbatim>\<open>NOT_FOUND\<close>
  error, and, the status table giving 404 for \<^verbatim>\<open>NOT_FOUND\<close> and the write succeeding,
  one Logged Call is written with statusCode 404, the error message, no usage, and the
  response payload \<^verbatim>\<open>{code: "NOT_FOUND", message}\<close>. (As stated, with a null response
  payload, it fails: the catch block stores the error's code and message as the
  response payload.)
\<close>

theorem missing_model_logged:
  assumes "parsePayload env inp = Inr ip"
    and "ci_model ip = ''openpipe:'' @ slug"
    and "readTags env c = Inr tgs"
    and "findUnique env slug = Inr None"
    and "statusCodeFromTrpcCode env NOT_FOUND = 404"
    and "\<forall>a. createLoggedCall env a = None"
  shows "result (createChatCompletion env c inp) =
           Inl (ExtendedTRPCError NOT_FOUND (''The model `'' @ ci_model ip @ ''` does not exist'') 404
                 (''The model `'' @ ci_model ip @ ''` does not exist'')) \<and>
         (\<exists>row. bg_store (after_request env c inp bg) = bg_store bg @ [row] \<and>
                lc_statusCode row = Some 404 \<and>
                lc_respPayload row =
                  Some (ErrorPayload NOT_FOUND (''The model `'' @ ci_model ip @ ''` does not exist'')) \<and>
                lc_errorMessage row = Some (''The model `'' @ ci_model ip @ ''` does not exist'') \<and>
                lc_usage row = None \<and>
                lc_reqPayload row = InputPayload ip)"
  using assms
  by (simp add: createChatCompletion_def tryBlock_def getCompletion_def Let_def
      startsWith_def after_request_def run_dispatch_def run_call_def recordLoggedCall_def)

theorem missing_model_logged_witness:
  "result (createChatCompletion ex_env ex_ctx (ex_request ''openpipe:my-model hi'')) =
     Inl (ExtendedTRPCError NOT_FOUND ''The model `openpipe:my-model` does not exist'' 404
           ''The model `openpipe:my-model` does not exist'') \<and>
   (\<exists>row. bg_store (after_request ex_env ex_ctx (ex_request ''openpipe:my-model hi'') bg0) = [row] \<and>
          lc_statusCode row = Some 404 \<and>
          lc_respPayload row =
            Some (ErrorPayload NOT_FOUND ''The model `openpipe:my-model` does not exist''))"
proof -
  have m: "ci_model \<lparr>ci_model = ''openpipe:my-model'', ci_rest = ''hi''\<rparr> = ''openpipe:'' @ ''my-model''"
    by simp
  have f: "findUnique ex_env ''my-model'' = Inr None"
    by (simp add: ex_env_def)
  have s: "statusCodeFromTrpcCode ex_env NOT_FOUND = 404"
    by (simp add: ex_env_def)
  from missing_model_logged [OF ex_parse_request(4) m ex_readTags(1) f s ex_storage_up, of bg0]
  show ?thesis
    by (auto simp: bg0_def)
qed

theorem missing_model_logged_counterexample:
  "map lc_respPayload
     (bg_store (after_request ex_env ex_ctx (ex_request ''openpipe:my-model hi'') bg0)) =
   [Some (ErrorPayload NOT_FOUND ''The model `openpipe:my-model` does not exist'')]"
  by (rule ex_missing_store)






text \<open>
  C5. When the provider the request is routed to (the upstream provider, or the
  fine-tune's serving endpoint after the ownership check) answers with a stream of
  chunks, the handler answers with the right branch and hands \<^verbatim>\<open>recordUsage\<close> the
  left branch of one split of exactly that chunk sequence. Whatever the order in which
  the two consumers read, each has seen a prefix of the provider's sequence, and a
  consumer that has asked at least as many times as there are chunks has seen exactly
  that sequence: every chunk once, in the original order.
\<close>

theorem stream_split_branches:
  assumes "parsePayload env inp = Inr ip"
    and "readTags env c = Inr tgs"
    and "(\<not> startsWith ''openpipe:'' (ci_model ip) \<and>
          getOpenaiCompletion env (key_projectId (ctx_key c)) ip (in_stream inp) =
            Inr (Stream chunks)) \<or>
         (\<exists>ft. startsWith ''openpipe:'' (ci_model ip) \<and>
               findUnique env (remove_first ''openpipe:'' (ci_model ip)) = Inr (Some ft) \<and>
               ft_projectId ft = key_projectId (ctx_key c) \<and>
               getCompletion2 env ft ip = Inr (Stream chunks))"
  shows "result (createChatCompletion env c inp) = Inr (ReadableStream (Branch RightBranch chunks)) \<and>
         (\<exists>a. dispatched (createChatCompletion env c inp) =
                [\<lparr>d_call = RecordUsage a, d_onReject = CaptureException\<rparr>] \<and>
              ru_completion a = Streamed (Branch LeftBranch chunks)) \<and>
         (\<forall>sched. prefix (seen LeftBranch (tee_run sched (tee_init chunks))) chunks \<and>
                  prefix (seen RightBranch (tee_run sched (tee_init chunks))) chunks \<and>
                  (length chunks \<le> count_list sched LeftBranch \<longrightarrow>
                     seen LeftBranch (tee_run sched (tee_init chunks)) = chunks) \<and>
                  (length chunks \<le> count_list sched RightBranch \<longrightarrow>
                     seen RightBranch (tee_run sched (tee_init chunks)) = chunks))"
proof -
  have handler:
    "result (createChatCompletion env c inp) = Inr (ReadableStream (Branch RightBranch chunks)) \<and>
     (\<exists>a. dispatched (createChatCompletion env c inp) =
            [\<lparr>d_call = RecordUsage a, d_onReject = CaptureException\<rparr>] \<and>
          ru_completion a = Streamed (Branch LeftBranch chunks))"
    using assms
    by (auto simp: createChatCompletion_def tryBlock_def getCompletion_def Let_def tee_def
        typedFineTune_def)
  have split:
    "\<forall>sched. prefix (seen LeftBranch (tee_run sched (tee_init chunks))) chunks \<and>
             prefix (seen RightBranch (tee_run sched (tee_init chunks))) chunks \<and>
             (length chunks \<le> count_list sched LeftBranch \<longrightarrow>
                seen LeftBranch (tee_run sched (tee_init chunks)) = chunks) \<and>
             (length chunks \<le> count_list sched RightBranch \<longrightarrow>
                seen RightBranch (tee_run sched (tee_init chunks)) = chunks)"
    using tee_run_prefix tee_run_complete by blast
  from handler split show ?thesis
    by blast
qed

theorem stream_split_branches_witness:
  "result (createChatCompletion ex_env ex_ctx ex_stream_request) =
     Inr (ReadableStream (Branch RightBranch [''c1'', ''c2'', ''c3''])) \<and>
   (\<exists>a. dispatched (createChatCompletion ex_env ex_ctx ex_stream_request) =
          [\<lparr>d_call = RecordUsage a, d_onReject = CaptureException\<rparr>] \<and>
        ru_completion a = Streamed (Branch LeftBranch [''c1'', ''c2'', ''c3''])) \<and>
   seen LeftBranch
     (tee_run [RightBranch, LeftBranch, RightBranch, RightBranch, LeftBranch, LeftBranch, RightBranch]
        (tee_init [''c1'', ''c2'', ''c3''])) = [''c1'', ''c2'', ''c3''] \<and>
   seen RightBranch
     (tee_run [RightBranch, LeftBranch, RightBranch, RightBranch, LeftBranch, LeftBranch, RightBranch]
        (tee_init [''c1'', ''c2'', ''c3''])) = [''c1'', ''c2'', ''c3'']"
proof -
  have n: "\<not> startsWith ''openpipe:'' (ci_model \<lparr>ci_model = ''gpt-4'', ci_rest = ''hi''\<rparr>)"
    by (simp add: startsWith_def)
  have p: "(\<not> startsWith ''openpipe:'' (ci_model \<lparr>ci_model = ''gpt-4'', ci_rest = ''hi''\<rparr>) \<and>
            getOpenaiCompletion ex_env (key_projectId (ctx_key ex_ctx))
              \<lparr>ci_model = ''gpt-4'', ci_rest = ''hi''\<rparr> (in_stream ex_stream_request) =
              Inr (Stream [''c1'', ''c2'', ''c3''])) \<or>
           (\<exists>ft. startsWith ''openpipe:'' (ci_model \<lparr>ci_model = ''gpt-4'', ci_rest = ''hi''\<rparr>) \<and>
                 findUnique ex_env
                   (remove_first ''openpipe:'' (ci_model \<lparr>ci_model = ''gpt-4'', ci_rest = ''hi''\<rparr>)) =
                   Inr (Some ft) \<and>
                 ft_projectId ft = key_projectId (ctx_key ex_ctx) \<and>
                 getCompletion2 ex_env ft \<lparr>ci_model = ''gpt-4'', ci_rest = ''hi''\<rparr> =
                   Inr (Stream [''c1'', ''c2'', ''c3'']))"
    using n ex_stream_provider by blast
  note t = stream_split_branches [OF ex_stream_parse ex_readTags(1) p]
  from t have h:
    "result (createChatCompletion ex_env ex_ctx ex_stream_request) =
       Inr (ReadableStream (Branch RightBranch [''c1'', ''c2'', ''c3'']))"
    "\<exists>a. dispatched (createChatCompletion ex_env ex_ctx ex_stream_request) =
           [\<lparr>d_call = RecordUsage a, d_onReject = CaptureException\<rparr>] \<and>
         ru_completion a = Streamed (Branch LeftBranch [''c1'', ''c2'', ''c3''])"
    by blast+
  from t have s:
    "\<forall>sched.
       (length [''c1'', ''c2'', ''c3''] \<le> count_list sched LeftBranch \<longrightarrow>
          seen LeftBranch (tee_run sched (tee_init [''c1'', ''c2'', ''c3''])) =
            [''c1'', ''c2'', ''c3'']) \<and>
       (length [''c1'', ''c2'', ''c3''] \<le> count_list sched RightBranch \<longrightarrow>
          seen RightBranch (tee_run sched (tee_init [''c1'', ''c2'', ''c3''])) =
            [''c1'', ''c2'', ''c3''])"
    by blast
  have c: "length [''c1'', ''c2'', ''c3''] \<le>
             count_list [RightBranch, LeftBranch, RightBranch, RightBranch, LeftBranch, LeftBranch,
                          RightBranch] LeftBranch"
          "length [''c1'', ''c2'', ''c3''] \<le>
             count_list [RightBranch, LeftBranch, RightBranch, RightBranch, LeftBranch, LeftBranch,
                          RightBranch] RightBranch"
    by simp_all
  from s c have
    "seen LeftBranch
       (tee_run [RightBranch, LeftBranch, RightBranch, RightBranch, LeftBranch, LeftBranch, RightBranch]
          (tee_init [''c1'', ''c2'', ''c3''])) = [''c1'', ''c2'', ''c3'']"
    "seen RightBranch
       (tee_run [RightBranch, LeftBranch, RightBranch, RightBranch, LeftBranch, LeftBranch, RightBranch]
          (tee_init [''c1'', ''c2'', ''c3''])) = [''c1'', ''c2'', ''c3'']"
    by blast+
  with h show ?thesis
    by (intro conjI)
qed

text \<open>
  C4, at a failing input. The log store refuses the write. For a custom model that
  does not exist the caller still gets the \<^verbatim>\<open>NOT_FOUND\<close> error, but the rejection of
  \<^verbatim>\<open>recordLoggedCall\<close> started by the catch block is handled by nobody and never
  reaches the observability sink; for a served completion the rejection of
  \<^verbatim>\<open>recordUsage\<close> is reported to the sink.
\<close>

theorem error_path_rejection_unhandled:
  "result (createChatCompletion ex_env_down ex_ctx (ex_request ''openpipe:my-model hi'')) =
     Inl (ExtendedTRPCError NOT_FOUND ''The model `openpipe:my-model` does not exist'' 404
           ''The model `openpipe:my-model` does not exist'') \<and>
   after_request ex_env_down ex_ctx (ex_request ''openpipe:my-model hi'') bg0 =
     \<lparr>bg_store = [], bg_sink = [], bg_unhandled = [''storage unavailable'']\<rparr> \<and>
   after_request ex_env_down ex_ctx (ex_request ''gpt-4 hi'') bg0 =
     \<lparr>bg_store = [], bg_sink = [''storage unavailable''], bg_unhandled = []\<rparr>"
  by (intro conjI ex_missing_result ex_missing_storage_down ex_gpt4_storage_down)

theorem error_path_rejection_unhandled_witness:
  "bg_sink (after_request ex_env_down ex_ctx (ex_request ''openpipe:my-model hi'') bg0) = [] \<and>
   bg_unhandled (after_request ex_env_down ex_ctx (ex_request ''openpipe:my-model hi'') bg0) =
     [''storage unavailable'']"
  using error_path_rejection_unhandled
  by simp

end
